theory Spec2Isabelle
  imports Main "HOL-Library.Word" "HOL-Library.Sublist" "HOL-Library.AList"
begin

section \<open>JavaScript strings\<close>

text \<open>
  A JavaScript string is a sequence of 16-bit code units. Text that comes from the user or
  from the provider (the idea, hashtags, error messages, drafts, image references) is a
  \<open>jsstring\<close>; \<open>js\<close> embeds an ASCII literal of the source. Property names, enum values
  and the aspect-ratio and size tokens are fixed ASCII tokens of the program and are
  kept as \<open>string\<close>.
\<close>

type_synonym jsstring = "16 word list"

definition js :: "string \<Rightarrow> jsstring" where
  "js s = map of_char s"

text \<open>\<open>String.prototype.includes\<close>: the pattern occurs at some position.\<close>

fun str_includes :: "'a list \<Rightarrow> 'a list \<Rightarrow> bool" where
  "str_includes [] pat = (pat = [])"
| "str_includes (c # cs) pat = (prefix pat (c # cs) \<or> str_includes cs pat)"

text \<open>
  \<open>String.prototype.trim\<close> strips WhiteSpace and LineTerminator code units (ECMAScript:
  TAB, LF, VT, FF, CR, SP, NBSP, the Unicode space separators, LS, PS, ZWNBSP) from both
  ends.
\<close>

definition whiteSpaceUnits :: "16 word list" where
  "whiteSpaceUnits =
     [0x0009, 0x000A, 0x000B, 0x000C, 0x000D, 0x0020, 0x00A0, 0x1680,
      0x2000, 0x2001, 0x2002, 0x2003, 0x2004, 0x2005, 0x2006, 0x2007,
      0x2008, 0x2009, 0x200A, 0x2028, 0x2029, 0x202F, 0x205F, 0x3000, 0xFEFF]"

definition isWhiteSpace :: "16 word \<Rightarrow> bool" where
  "isWhiteSpace c = (c \<in> set whiteSpaceUnits)"

definition trim :: "jsstring \<Rightarrow> jsstring" where
  "trim s = rev (dropWhile isWhiteSpace (rev (dropWhile isWhiteSpace s)))"

text \<open>\<open>s.startsWith('#')\<close>; \<open>0x23\<close> is the code unit of \<open>#\<close>.\<close>

definition startsWithHash :: "jsstring \<Rightarrow> bool" where
  "startsWithHash s = (case s of [] \<Rightarrow> False | c # _ \<Rightarrow> c = 0x23)"

section \<open>types.ts\<close>

text \<open>
  A TypeScript string enum compiles to an object with one own property per declared
  member. Reading a member that the enum does not declare yields \<open>undefined\<close>.
  \<open>Platform_enum\<close> is the object of \<open>export enum Platform\<close>; \<open>Platform name\<close> is the
  expression \<open>Platform.name\<close>.
\<close>

datatype PlatformValue = Member string | Undefined

definition Platform_enum :: "(string \<times> string) list" where
  "Platform_enum =
     [(''LINKEDIN'', ''LINKEDIN''), (''TWITTER'', ''TWITTER''), (''INSTAGRAM'', ''INSTAGRAM'')]"

definition Platform :: "string \<Rightarrow> PlatformValue" where
  "Platform name = (case map_of Platform_enum name of Some v \<Rightarrow> Member v | None \<Rightarrow> Undefined)"

text \<open>
  A computed property name \<open>[e]\<close> converts the value of \<open>e\<close> to a property key: a string
  is its own key, \<open>undefined\<close> becomes the key \<open>"undefined"\<close>.
\<close>

fun property_key :: "PlatformValue \<Rightarrow> string" where
  "property_key (Member s) = s"
| "property_key Undefined = ''undefined''"

text \<open>The keys that \<open>interface GenerationResult\<close> declares, in order.\<close>

definition GenerationResult_keys :: "string list" where
  "GenerationResult_keys =
     [property_key (Platform ''LINKEDIN''), property_key (Platform ''TWITTER''),
      property_key (Platform ''INSTAGRAM'')]"

datatype Tone = PROFESSIONAL | WITTY | URGENT

text \<open>
  \<open>interface GeneratedPost\<close>. An object built by spreading \<open>undefined\<close> has none of the
  declared properties, so every property is optional in the model (\<open>None\<close>: the property
  is absent or \<open>undefined\<close>).
\<close>

record GeneratedPost =
  post_text :: "jsstring option"
  imagePrompt :: "jsstring option"
  hashtags :: "jsstring list option"
  platform :: PlatformValue
  imageUrl :: "jsstring option"
  imageLoading :: "bool option"

text \<open>
  A \<open>GenerationResult\<close> object: its own properties in insertion order. Writing a key that
  exists replaces the value in place, writing a new key appends it (\<open>AList.update\<close>).
\<close>

type_synonym GenerationResult = "(string \<times> GeneratedPost) list"

section \<open>services/geminiService.ts: the aspect ratio of an image request\<close>

text \<open>
  \<open>generateImageForPlatform\<close>, lines 96 to 133. The \<open>switch\<close> compares the platform with
  the case expressions \<open>Platform.LINKEDIN\<close>, ... in order, by strict equality.
\<close>

definition resolveRatio :: "PlatformValue \<Rightarrow> string \<Rightarrow> string" where
  "resolveRatio p ratio =
     (if ratio = ''AUTO'' then
        (if p = Platform ''LINKEDIN'' then ''16:9''
         else if p = Platform ''TWITTER'' then ''16:9''
         else if p = Platform ''INSTAGRAM'' then ''1:1''
         else if p = Platform ''FACEBOOK'' then ''4:3''
         else ''1:1'')
      else ratio)"

definition safeRatioMap :: "(string \<times> string) list" where
  "safeRatioMap =
     [(''1:1'', ''1:1''), (''3:4'', ''3:4''), (''4:3'', ''4:3''), (''9:16'', ''9:16''),
      (''16:9'', ''16:9''), (''2:3'', ''3:4''), (''3:2'', ''4:3''), (''21:9'', ''16:9'')]"

text \<open>
  \<open>safeRatioMap\<close> is an object literal, so its prototype is \<open>Object.prototype\<close>, and
  \<open>safeRatioMap[k]\<close> finds an own property first and an inherited one otherwise. These are
  the property names of \<open>Object.prototype\<close> (ECMAScript, with Annex B); each holds a function
  or an object, which is truthy.
\<close>

definition Object_prototype_keys :: "string list" where
  "Object_prototype_keys =
     [''constructor'', ''hasOwnProperty'', ''isPrototypeOf'', ''propertyIsEnumerable'',
      ''toLocaleString'', ''toString'', ''valueOf'', ''__proto__'', ''__defineGetter__'',
      ''__defineSetter__'', ''__lookupGetter__'', ''__lookupSetter__'']"

datatype PropertyValue = StringValue string | InheritedValue string | UndefinedValue

definition safeRatioMap_get :: "string \<Rightarrow> PropertyValue" where
  "safeRatioMap_get k =
     (case map_of safeRatioMap k of
        Some v \<Rightarrow> StringValue v
      | None \<Rightarrow> if k \<in> set Object_prototype_keys then InheritedValue k else UndefinedValue)"

text \<open>\<open>safeRatioMap[ratio] || '1:1'\<close>: the empty string and \<open>undefined\<close> are falsy.\<close>

definition apiRatio :: "PlatformValue \<Rightarrow> string \<Rightarrow> PropertyValue" where
  "apiRatio p ratio =
     (case safeRatioMap_get (resolveRatio p ratio) of
        StringValue v \<Rightarrow> if v = [] then StringValue ''1:1'' else StringValue v
      | InheritedValue k \<Rightarrow> InheritedValue k
      | UndefinedValue \<Rightarrow> StringValue ''1:1'')"

section \<open>components/PostCard.tsx: the editable hashtag list\<close>

text \<open>
  The component state is the pair of \<open>editableHashtags\<close> and \<open>hashtagInput\<close>.
  \<open>String.prototype.toLowerCase\<close> follows the Unicode case tables and is a parameter
  (\<open>lower\<close>) of the model.
\<close>

text \<open>Lines 28 and 29: the tag that \<open>addHashtag\<close> compares and stores.\<close>

definition normalizedTag :: "jsstring \<Rightarrow> jsstring" where
  "normalizedTag hashtagInput =
     (let tag = trim hashtagInput in if \<not> startsWithHash tag then js ''#'' @ tag else tag)"

text \<open>Lines 26 to 36.\<close>

definition addHashtag ::
  "(jsstring \<Rightarrow> jsstring) \<Rightarrow> jsstring list \<times> jsstring \<Rightarrow> jsstring list \<times> jsstring" where
  "addHashtag lower st =
     (case st of (editableHashtags, hashtagInput) \<Rightarrow>
        if trim hashtagInput = [] then (editableHashtags, hashtagInput)
        else
          let tag = normalizedTag hashtagInput
          in (if \<not> list_ex (\<lambda>t. lower t = lower tag) editableHashtags
              then editableHashtags @ [tag] else editableHashtags,
              []))"

text \<open>
  \<open>removeHashtag\<close>, lines 38 to 40: \<open>filter\<close> passes each element with its index; the
  argument is a JavaScript number, taken here as an integer.
\<close>

definition removeHashtag :: "int \<Rightarrow> jsstring list \<Rightarrow> jsstring list" where
  "removeHashtag indexToRemove editableHashtags =
     map snd (filter (\<lambda>(index, _). int index \<noteq> indexToRemove) (enumerate 0 editableHashtags))"

text \<open>ASCII lower-casing: what \<open>toLowerCase\<close> does on ASCII text.\<close>

definition toLowerCaseASCII :: "jsstring \<Rightarrow> jsstring" where
  "toLowerCaseASCII s = map (\<lambda>c. if 0x41 \<le> c \<and> c \<le> 0x5A then c + 0x20 else c) s"


section \<open>App.tsx: values\<close>

text \<open>
  The return type of \<open>generatePostContent\<close>: one draft per platform (only the Instagram
  draft is declared with hashtags).
\<close>

record Draft =
  draft_text :: jsstring
  draft_imagePrompt :: jsstring
  draft_hashtags :: "jsstring list option"

record Content =
  linkedin :: Draft
  twitter :: Draft
  instagram :: Draft
  facebook :: Draft

text \<open>
  A thrown value as \<open>handleApiError\<close> sees it: a string; an \<open>Error\<close> instance, with its
  message (a string, as \<open>Error\<close> declares it) and its \<open>response\<close> property when that is
  truthy; or anything else. A value that
  is handed to \<open>JSON.stringify\<close> is represented by what \<open>JSON.stringify\<close> does with it: it
  returns a string, it returns \<open>undefined\<close> (for \<open>undefined\<close>, a function, a symbol), or
  it throws (a cycle, a BigInt).
\<close>

datatype Stringified = Json jsstring | NoJson | StringifyThrows

datatype ErrorValue =
    ErrString jsstring
  | ErrObject jsstring "Stringified option"
  | ErrOther Stringified

datatype Alert = PermissionAlert | TextFailedAlert

text \<open>Calls of the two collaborators, with their arguments.\<close>

datatype ServiceCall =
    TextCall jsstring Tone
  | ImageCall "jsstring option" PlatformValue string string

text \<open>
  An \<open>async\<close> function that is suspended at an \<open>await\<close>, with what its closure holds.
  \<open>handleApiError\<close> has an \<open>await\<close> of its own (the key selector), so a caller that
  awaits \<open>handleApiError\<close> records how far that call got.
\<close>

datatype Caller = InGenerate | InBatch nat PlatformValue | InRegenerate PlatformValue

datatype ApiErrorState = Returned | Threw | AwaitsSelectKey

datatype Continuation =
    GenerateAwaitsText nat string string
  | TaskAwaitsImage nat PlatformValue
  | RegenerateAwaitsImage PlatformValue
  | AwaitsApiError Caller ApiErrorState
  | SelectKeyAwaits

datatype TaskStatus = Running | Fulfilled | Rejected

text \<open>
  The component's state (\<open>useState\<close>), its ref, and the runtime around it: the alerts
  shown, the collaborator calls made, the suspended continuations with their ids, and
  the promises of the image tasks of each batch (keyed by generation cycle and property
  key). \<open>cycle\<close> counts the generation cycles started; it and \<open>tasks\<close> are bookkeeping of
  the model, the code has no such counter. \<open>renderFailed\<close> records that a state updater threw.
\<close>

record App =
  hasKey :: bool
  idea :: jsstring
  tone :: Tone
  imageSize :: string
  aspectRatio :: string
  isGeneratingText :: bool
  results :: "GenerationResult option"
  permissionErrorRef :: bool
  renderFailed :: bool
  alerts :: "Alert list"
  calls :: "ServiceCall list"
  pending :: "(nat \<times> Continuation) list"
  nextId :: nat
  cycle :: nat
  tasks :: "((nat \<times> string) \<times> TaskStatus) list"

definition await :: "Continuation \<Rightarrow> App \<Rightarrow> App" where
  "await k st = st\<lparr>pending := pending st @ [(nextId st, k)], nextId := Suc (nextId st)\<rparr>"

definition settle :: "nat \<Rightarrow> PlatformValue \<Rightarrow> TaskStatus \<Rightarrow> App \<Rightarrow> App" where
  "settle c p status st = st\<lparr>tasks := AList.update (c, property_key p) status (tasks st)\<rparr>"

section \<open>App.tsx: handleApiError\<close>

text \<open>
  Lines 56 to 74. \<open>" " + JSON.stringify(x)\<close> is \<open>" undefined"\<close> when \<open>JSON.stringify\<close>
  returns \<open>undefined\<close>; in the last branch \<open>errorMessage\<close> itself is then \<open>undefined\<close>
  (\<open>None\<close>).
\<close>

fun errorMessage :: "ErrorValue \<Rightarrow> jsstring option" where
  "errorMessage (ErrString s) = Some s"
| "errorMessage (ErrObject message None) = Some message"
| "errorMessage (ErrObject message (Some (Json j))) = Some (message @ js '' '' @ j)"
| "errorMessage (ErrObject message (Some NoJson)) = Some (message @ js '' '' @ js ''undefined'')"
| "errorMessage (ErrObject message (Some StringifyThrows)) = Some message"
| "errorMessage (ErrOther (Json j)) = Some j"
| "errorMessage (ErrOther NoJson) = None"
| "errorMessage (ErrOther StringifyThrows) = Some (js ''Unknown error'')"

text \<open>Lines 77 to 81.\<close>

definition isPermissionError :: "jsstring \<Rightarrow> bool" where
  "isPermissionError message =
     (str_includes message (js ''403'') \<or>
      str_includes message (js ''PERMISSION_DENIED'') \<or>
      str_includes message (js ''The caller does not have permission'') \<or>
      str_includes message (js ''Requested entity was not found''))"

text \<open>
  Lines 53 to 105, up to the \<open>await\<close> of line 94. \<open>aistudio\<close> says whether
  \<open>window.aistudio\<close> exists. When \<open>errorMessage\<close> is \<open>undefined\<close>, \<open>errorMessage.includes\<close>
  throws a TypeError and the call rejects.
\<close>

definition handleApiError :: "bool \<Rightarrow> ErrorValue \<Rightarrow> App \<Rightarrow> App \<times> ApiErrorState" where
  "handleApiError aistudio error st =
     (case errorMessage error of
        None \<Rightarrow> (st, Threw)
      | Some message \<Rightarrow>
          if isPermissionError message then
            if \<not> permissionErrorRef st then
              let st' = st\<lparr>permissionErrorRef := True, hasKey := False,
                            alerts := alerts st @ [PermissionAlert]\<rparr>
              in if aistudio then (st', AwaitsSelectKey) else (st', Returned)
            else (st, Returned)
          else (st, Returned))"

text \<open>Lines 95 to 99: after \<open>openSelectKey\<close> resolved (\<open>True\<close>) or rejected.\<close>

definition afterSelectKey :: "bool \<Rightarrow> App \<Rightarrow> App" where
  "afterSelectKey selected st =
     (if selected then st\<lparr>hasKey := True, permissionErrorRef := False\<rparr> else st)"

text \<open>Whether the handler classifies the error as a permission error, when it gets that far.\<close>

definition classify :: "ErrorValue \<Rightarrow> bool option" where
  "classify error = map_option isPermissionError (errorMessage error)"

section \<open>App.tsx: updates of the results state\<close>

text \<open>
  \<open>setResults(prev => { if (!prev) return null; return f(prev) })\<close>. React applies the
  queued updaters in the order of the \<open>setResults\<close> calls, each to the state the previous
  one left, so the model applies an updater where the code calls \<open>setResults\<close>.
\<close>

definition setResults :: "(GenerationResult \<Rightarrow> GenerationResult) \<Rightarrow> App \<Rightarrow> App" where
  "setResults f st = st\<lparr>results := map_option f (results st)\<rparr>"

definition emptyPost :: GeneratedPost where
  "emptyPost = \<lparr>post_text = None, imagePrompt = None, hashtags = None, platform = Undefined,
                 imageUrl = None, imageLoading = None\<rparr>"

text \<open>\<open>{ ...prev, [platform]: f({ ...prev[platform] }) }\<close>\<close>

definition updatePost ::
  "PlatformValue \<Rightarrow> (GeneratedPost \<Rightarrow> GeneratedPost) \<Rightarrow> GenerationResult \<Rightarrow> GenerationResult" where
  "updatePost p f prev =
     AList.update (property_key p)
       (f (case map_of prev (property_key p) of None \<Rightarrow> emptyPost | Some post \<Rightarrow> post)) prev"

text \<open>Lines 155, 184 and 225; lines 171 and 216; line 201.\<close>

definition clearLoading :: "PlatformValue \<Rightarrow> App \<Rightarrow> App" where
  "clearLoading p = setResults (updatePost p (\<lambda>post. post\<lparr>imageLoading := Some False\<rparr>))"

definition storeImage :: "PlatformValue \<Rightarrow> jsstring \<Rightarrow> App \<Rightarrow> App" where
  "storeImage p url =
     setResults (updatePost p (\<lambda>post. post\<lparr>imageUrl := Some url, imageLoading := Some False\<rparr>))"

definition markRegenerating :: "PlatformValue \<Rightarrow> App \<Rightarrow> App" where
  "markRegenerating p = setResults (updatePost p (\<lambda>post. post\<lparr>imageLoading := Some True\<rparr>))"

text \<open>Line 140.\<close>

definition platforms :: "PlatformValue list" where
  "platforms =
     [Platform ''LINKEDIN'', Platform ''TWITTER'', Platform ''INSTAGRAM'', Platform ''FACEBOOK'']"

text \<open>
  Lines 143 to 148. \<open>next[p].imageLoading = true\<close> writes into the post object itself and
  throws a TypeError (\<open>None\<close>) when \<open>next[p]\<close> is \<open>undefined\<close>. The post objects are shared
  with \<open>currentResults\<close>; the tasks read only \<open>imagePrompt\<close> from them, which no update
  changes.
\<close>

fun markLoading :: "PlatformValue list \<Rightarrow> GenerationResult \<Rightarrow> GenerationResult option" where
  "markLoading [] next = Some next"
| "markLoading (p # ps) next =
     (case map_of next (property_key p) of
        None \<Rightarrow> None
      | Some post \<Rightarrow>
          markLoading ps (AList.update (property_key p) (post\<lparr>imageLoading := Some True\<rparr>) next))"

definition setAllLoading :: "App \<Rightarrow> App" where
  "setAllLoading st =
     (case results st of
        None \<Rightarrow> st
      | Some prev \<Rightarrow>
          (case markLoading platforms prev of
             None \<Rightarrow> st\<lparr>renderFailed := True\<rparr>
           | Some next \<Rightarrow> st\<lparr>results := Some next\<rparr>))"

section \<open>App.tsx: handleGenerate and generateAllImages\<close>

text \<open>\<open>{ ...draft, platform: p }\<close>\<close>

definition spreadDraft :: "Draft \<Rightarrow> PlatformValue \<Rightarrow> GeneratedPost" where
  "spreadDraft d p =
     \<lparr>post_text = Some (draft_text d), imagePrompt = Some (draft_imagePrompt d),
      hashtags = draft_hashtags d, platform = p, imageUrl = None, imageLoading = None\<rparr>"

text \<open>Lines 116 to 121: the object literal, its properties written in order.\<close>

definition newResults :: "Content \<Rightarrow> GenerationResult" where
  "newResults content =
     AList.update (property_key (Platform ''FACEBOOK''))
       (spreadDraft (facebook content) (Platform ''FACEBOOK''))
     (AList.update (property_key (Platform ''INSTAGRAM''))
       (spreadDraft (instagram content) (Platform ''INSTAGRAM''))
     (AList.update (property_key (Platform ''TWITTER''))
       (spreadDraft (twitter content) (Platform ''TWITTER''))
     (AList.update (property_key (Platform ''LINKEDIN''))
       (spreadDraft (linkedin content) (Platform ''LINKEDIN'')) [])))"

text \<open>
  Lines 107 to 114, up to the \<open>await\<close>. The continuation keeps the \<open>aspectRatio\<close> and
  \<open>imageSize\<close> of the render that created the handler.
\<close>

definition handleGenerate :: "App \<Rightarrow> App" where
  "handleGenerate st =
     (if trim (idea st) = [] then st
      else
        await (GenerateAwaitsText (Suc (cycle st)) (aspectRatio st) (imageSize st))
          (st\<lparr>isGeneratingText := True, results := None, permissionErrorRef := False,
              calls := calls st @ [TextCall (idea st) (tone st)],
              cycle := Suc (cycle st)\<rparr>))"

text \<open>
  The TypeError of \<open>post.imagePrompt\<close> (line 162) and of \<open>results[platform].imagePrompt\<close>
  (line 207) when the object is \<open>undefined\<close>. Both are thrown inside the \<open>try\<close>. The
  message differs between engines; no engine's message holds a permission marker.
\<close>

definition typeErrorPost :: ErrorValue where
  "typeErrorPost = ErrObject (js ''post is undefined'') None"

definition typeErrorResults :: ErrorValue where
  "typeErrorResults = ErrObject (js ''results[platform] is undefined'') None"

text \<open>Lines 180 to 187: the end of the \<open>catch\<close> block; the task's promise fulfils.\<close>

definition taskFinish :: "nat \<Rightarrow> PlatformValue \<Rightarrow> App \<Rightarrow> App" where
  "taskFinish c p st = settle c p Fulfilled (clearLoading p st)"

text \<open>Lines 174 to 178: the \<open>catch\<close> block up to its \<open>await\<close>.\<close>

definition taskCatch :: "bool \<Rightarrow> nat \<Rightarrow> PlatformValue \<Rightarrow> ErrorValue \<Rightarrow> App \<Rightarrow> App" where
  "taskCatch aistudio c p error st =
     (if \<not> permissionErrorRef st then
        (case handleApiError aistudio error st of
           (st', outcome) \<Rightarrow> await (AwaitsApiError (InBatch c p) outcome) st')
      else taskFinish c p st)"

text \<open>Lines 167 to 173: the image call resolved.\<close>

definition taskResolved :: "nat \<Rightarrow> PlatformValue \<Rightarrow> jsstring \<Rightarrow> App \<Rightarrow> App" where
  "taskResolved c p url st = settle c p Fulfilled (storeImage p url st)"

text \<open>Lines 150 to 165: one task of the batch, up to its first \<open>await\<close>.\<close>

definition startTask ::
  "bool \<Rightarrow> nat \<Rightarrow> GenerationResult \<Rightarrow> string \<Rightarrow> string \<Rightarrow> PlatformValue \<Rightarrow> App \<Rightarrow> App" where
  "startTask aistudio c currentResults ar sz p st =
     (if permissionErrorRef st then settle c p Fulfilled (clearLoading p st)
      else
        (case map_of currentResults (property_key p) of
           None \<Rightarrow> taskCatch aistudio c p typeErrorPost (settle c p Running st)
         | Some post \<Rightarrow>
             await (TaskAwaitsImage c p)
               (settle c p Running (st\<lparr>calls := calls st @ [ImageCall (imagePrompt post) p ar sz]\<rparr>))))"

text \<open>
  Lines 139 to 190, up to \<open>await Promise.all(promises)\<close>: \<open>map\<close> runs the four tasks in
  order, each up to its first \<open>await\<close>.
\<close>

definition generateAllImages ::
  "bool \<Rightarrow> nat \<Rightarrow> GenerationResult \<Rightarrow> string \<Rightarrow> string \<Rightarrow> App \<Rightarrow> App" where
  "generateAllImages aistudio c currentResults ar sz st =
     fold (startTask aistudio c currentResults ar sz) platforms (setAllLoading st)"

text \<open>The status of the task promise of platform \<open>p\<close> in the batch of cycle \<open>c\<close>.\<close>

definition taskStatus :: "App \<Rightarrow> nat \<Rightarrow> PlatformValue \<Rightarrow> TaskStatus option" where
  "taskStatus st c p = map_of (tasks st) (c, property_key p)"


text \<open>Lines 116 to 127 and 134 to 136: the text call resolved.\<close>

definition generateResolved :: "bool \<Rightarrow> nat \<Rightarrow> string \<Rightarrow> string \<Rightarrow> Content \<Rightarrow> App \<Rightarrow> App" where
  "generateResolved aistudio c ar sz content st =
     (generateAllImages aistudio c (newResults content) ar sz
        (st\<lparr>results := Some (newResults content)\<rparr>))\<lparr>isGeneratingText := False\<rparr>"

text \<open>Lines 129 and 130: the text call rejected.\<close>

definition generateCatch :: "bool \<Rightarrow> ErrorValue \<Rightarrow> App \<Rightarrow> App" where
  "generateCatch aistudio error st =
     (case handleApiError aistudio error st of
        (st', outcome) \<Rightarrow> await (AwaitsApiError InGenerate outcome) st')"

text \<open>Lines 131 to 136.\<close>

definition generateFinish :: "App \<Rightarrow> App" where
  "generateFinish st =
     (if \<not> permissionErrorRef st then st\<lparr>alerts := alerts st @ [TextFailedAlert]\<rparr> else st)
       \<lparr>isGeneratingText := False\<rparr>"

section \<open>App.tsx: handleRegenerateImage and handleSelectKey\<close>

text \<open>Line 220.\<close>

definition regenerateCatch :: "bool \<Rightarrow> PlatformValue \<Rightarrow> ErrorValue \<Rightarrow> App \<Rightarrow> App" where
  "regenerateCatch aistudio p error st =
     (case handleApiError aistudio error st of
        (st', outcome) \<Rightarrow> await (AwaitsApiError (InRegenerate p) outcome) st')"

text \<open>
  Lines 193 to 210, up to the \<open>await\<close>. \<open>results\<close> is the state of the render that created
  the handler.
\<close>

definition handleRegenerateImage :: "bool \<Rightarrow> PlatformValue \<Rightarrow> App \<Rightarrow> App" where
  "handleRegenerateImage aistudio p st =
     (case results st of
        None \<Rightarrow> st
      | Some res \<Rightarrow>
          let st1 = markRegenerating p (st\<lparr>permissionErrorRef := False\<rparr>)
          in (case map_of res (property_key p) of
                None \<Rightarrow> regenerateCatch aistudio p typeErrorResults st1
              | Some post \<Rightarrow>
                  await (RegenerateAwaitsImage p)
                    (st1\<lparr>calls := calls st1 @
                       [ImageCall (imagePrompt post) p (aspectRatio st) (imageSize st)]\<rparr>)))"

text \<open>Lines 40 to 44.\<close>

definition handleSelectKey :: "bool \<Rightarrow> App \<Rightarrow> App" where
  "handleSelectKey aistudio st = (if aistudio then await SelectKeyAwaits st else st)"

section \<open>The event loop\<close>

text \<open>
  What an awaited promise delivers: the drafts, an image reference, nothing (a promise
  of \<open>void\<close>), or a rejection.
\<close>

datatype Outcome = GotContent Content | GotImage jsstring | Completed | Failed ErrorValue

text \<open>The caller of \<open>handleApiError\<close> goes on after the call returned.\<close>

fun resumeCaller :: "Caller \<Rightarrow> App \<Rightarrow> App" where
  "resumeCaller InGenerate st = generateFinish st"
| "resumeCaller (InBatch c p) st = taskFinish c p st"
| "resumeCaller (InRegenerate p) st = clearLoading p st"

text \<open>
  \<open>handleApiError\<close> threw: the \<open>await\<close> inside the caller's \<open>catch\<close> block throws, only a
  \<open>finally\<close> block still runs, and the caller's promise rejects.
\<close>

fun abortCaller :: "Caller \<Rightarrow> App \<Rightarrow> App" where
  "abortCaller InGenerate st = st\<lparr>isGeneratingText := False\<rparr>"
| "abortCaller (InBatch c p) st = settle c p Rejected st"
| "abortCaller (InRegenerate p) st = st"

text \<open>A suspended continuation runs to its next \<open>await\<close> or to its end.\<close>

fun resume :: "bool \<Rightarrow> Continuation \<Rightarrow> Outcome \<Rightarrow> App \<Rightarrow> App option" where
  "resume aistudio (GenerateAwaitsText c ar sz) (GotContent content) st =
     Some (generateResolved aistudio c ar sz content st)"
| "resume aistudio (GenerateAwaitsText c ar sz) (Failed error) st =
     Some (generateCatch aistudio error st)"
| "resume aistudio (TaskAwaitsImage c p) (GotImage url) st = Some (taskResolved c p url st)"
| "resume aistudio (TaskAwaitsImage c p) (Failed error) st =
     Some (taskCatch aistudio c p error st)"
| "resume aistudio (RegenerateAwaitsImage p) (GotImage url) st = Some (storeImage p url st)"
| "resume aistudio (RegenerateAwaitsImage p) (Failed error) st =
     Some (regenerateCatch aistudio p error st)"
| "resume aistudio (AwaitsApiError caller Returned) Completed st = Some (resumeCaller caller st)"
| "resume aistudio (AwaitsApiError caller Threw) Completed st = Some (abortCaller caller st)"
| "resume aistudio (AwaitsApiError caller AwaitsSelectKey) Completed st =
     Some (resumeCaller caller (afterSelectKey True st))"
| "resume aistudio (AwaitsApiError caller AwaitsSelectKey) (Failed error) st =
     Some (resumeCaller caller (afterSelectKey False st))"
| "resume aistudio SelectKeyAwaits Completed st = Some (afterSelectKey True st)"
| "resume aistudio SelectKeyAwaits (Failed error) st = Some st"
| "resume aistudio _ _ st = None"

datatype Event =
    SetIdea jsstring
  | SetTone Tone
  | SetImageSize string
  | SetAspectRatio string
  | ClickGenerate
  | ClickRegenerate PlatformValue
  | ClickSelectKey
  | Settles nat Outcome

text \<open>
  One turn of the event loop: a handler is invoked, or the promise that the suspended
  continuation \<open>i\<close> awaits settles (\<open>None\<close> when no continuation \<open>i\<close> is suspended, or it
  awaits a promise of another kind).
\<close>

definition step :: "bool \<Rightarrow> Event \<Rightarrow> App \<Rightarrow> App option" where
  "step aistudio ev st =
     (case ev of
        SetIdea s \<Rightarrow> Some (st\<lparr>idea := s\<rparr>)
      | SetTone t \<Rightarrow> Some (st\<lparr>tone := t\<rparr>)
      | SetImageSize sz \<Rightarrow> Some (st\<lparr>imageSize := sz\<rparr>)
      | SetAspectRatio ar \<Rightarrow> Some (st\<lparr>aspectRatio := ar\<rparr>)
      | ClickGenerate \<Rightarrow> Some (handleGenerate st)
      | ClickRegenerate p \<Rightarrow> Some (handleRegenerateImage aistudio p st)
      | ClickSelectKey \<Rightarrow> Some (handleSelectKey aistudio st)
      | Settles i out \<Rightarrow>
          (case map_of (pending st) i of
             None \<Rightarrow> None
           | Some k \<Rightarrow> resume aistudio k out (st\<lparr>pending := AList.delete i (pending st)\<rparr>)))"

text \<open>
  What the page offers to the user: the form and the cards are rendered only with a
  key, the generate button is disabled while a text generation runs or the idea is
  blank, a card exists once there are results and offers regeneration while its image
  is not loading, and the key button is shown without a key.
\<close>

definition regenerateOffered :: "PlatformValue \<Rightarrow> App \<Rightarrow> bool" where
  "regenerateOffered p st =
     (hasKey st \<and> p \<in> set platforms \<and>
      (case results st of
         None \<Rightarrow> False
       | Some res \<Rightarrow>
           (case map_of res (property_key p) of
              None \<Rightarrow> False
            | Some post \<Rightarrow> imageLoading post \<noteq> Some True)))"

fun offered :: "Event \<Rightarrow> App \<Rightarrow> bool" where
  "offered ClickGenerate st = (hasKey st \<and> \<not> isGeneratingText st \<and> trim (idea st) \<noteq> [])"
| "offered (ClickRegenerate p) st = regenerateOffered p st"
| "offered ClickSelectKey st = (\<not> hasKey st)"
| "offered (Settles i out) st = True"
| "offered _ st = hasKey st"

text \<open>A run of the page: each event is one the page offers and the state allows.\<close>

fun run :: "bool \<Rightarrow> Event list \<Rightarrow> App \<Rightarrow> App option" where
  "run aistudio [] st = Some st"
| "run aistudio (ev # evs) st =
     (if offered ev st then
        (case step aistudio ev st of None \<Rightarrow> None | Some st' \<Rightarrow> run aistudio evs st')
      else None)"

text \<open>The component after mounting, once the key check of lines 26 to 38 has set \<open>hasKey\<close>.\<close>

definition mounted :: "bool \<Rightarrow> App" where
  "mounted key =
     \<lparr>hasKey = key, idea = [], tone = PROFESSIONAL, imageSize = ''1K'', aspectRatio = ''AUTO'',
      isGeneratingText = False, results = None, permissionErrorRef = False,
      renderFailed = False, alerts = [], calls = [], pending = [], nextId = 0, cycle = 0,
      tasks = []\<rparr>"


section \<open>Notions used by the properties\<close>

text \<open>
  The aspect-ratio mapping as the specification words it: the default of a platform, the
  supported set, and the fixed table with its fall-back.
\<close>

definition spec_platformDefault :: "string \<Rightarrow> string" where
  "spec_platformDefault name =
     (if name = ''LINKEDIN'' then ''16:9'' else if name = ''TWITTER'' then ''16:9''
      else if name = ''INSTAGRAM'' then ''1:1'' else if name = ''FACEBOOK'' then ''4:3''
      else ''1:1'')"

definition spec_supported :: "string list" where
  "spec_supported = [''1:1'', ''3:4'', ''4:3'', ''9:16'', ''16:9'']"

definition spec_mapRatio :: "string \<Rightarrow> string" where
  "spec_mapRatio r =
     (if r = ''2:3'' then ''3:4'' else if r = ''3:2'' then ''4:3''
      else if r = ''21:9'' then ''16:9''
      else if r \<in> set spec_supported then r else ''1:1'')"

definition platformNames :: "string list" where
  "platformNames = [''LINKEDIN'', ''TWITTER'', ''INSTAGRAM'', ''FACEBOOK'']"

text \<open>The post stored under a property key of the results, if any.\<close>

definition entry :: "App \<Rightarrow> string \<Rightarrow> GeneratedPost option" where
  "entry st k = (case results st of None \<Rightarrow> None | Some res \<Rightarrow> map_of res k)"

text \<open>Two posts agree on everything but the image reference and the loading flag.\<close>

definition sameDraft :: "GeneratedPost \<Rightarrow> GeneratedPost \<Rightarrow> bool" where
  "sameDraft a b =
     (post_text a = post_text b \<and> imagePrompt a = imagePrompt b \<and> hashtags a = hashtags b \<and>
      platform a = platform b)"

text \<open>
  From \<open>st\<close> to \<open>st'\<close> the results were touched at most at the entry of platform \<open>p\<close>,
  and there at most in the image reference and the loading flag: empty results stay
  empty, every other entry is the same, and an entry of \<open>p\<close> keeps its draft.
\<close>

definition touchesOnly :: "PlatformValue \<Rightarrow> App \<Rightarrow> App \<Rightarrow> bool" where
  "touchesOnly p st st' =
     ((results st = None \<longrightarrow> results st' = None) \<and>
      (\<forall>k. k \<noteq> property_key p \<longrightarrow> entry st' k = entry st k) \<and>
      (\<forall>e. entry st (property_key p) = Some e \<longrightarrow>
         (\<exists>e'. entry st' (property_key p) = Some e' \<and> sameDraft e e')))"

text \<open>
  The event continues the image task of platform \<open>p\<close> in the batch of cycle \<open>c\<close>: the
  task's image call settles, or the \<open>handleApiError\<close> call it awaits does.
\<close>

definition taskEvent :: "nat \<Rightarrow> PlatformValue \<Rightarrow> App \<Rightarrow> Event \<Rightarrow> bool" where
  "taskEvent c p st ev =
     (case ev of
        Settles i out \<Rightarrow>
          (case map_of (pending st) i of
             Some (TaskAwaitsImage c' q) \<Rightarrow> c' = c \<and> q = p
           | Some (AwaitsApiError (InBatch c' q) x) \<Rightarrow> c' = c \<and> q = p
           | _ \<Rightarrow> False)
      | _ \<Rightarrow> False)"

text \<open>The event is a part of \<open>handleRegenerateImage(p)\<close>: its invocation or a continuation.\<close>

definition regenerateEvent :: "PlatformValue \<Rightarrow> App \<Rightarrow> Event \<Rightarrow> bool" where
  "regenerateEvent p st ev =
     (case ev of
        ClickRegenerate q \<Rightarrow> q = p
      | Settles i out \<Rightarrow>
          (case map_of (pending st) i of
             Some (RegenerateAwaitsImage q) \<Rightarrow> q = p
           | Some (AwaitsApiError (InRegenerate q) x) \<Rightarrow> q = p
           | _ \<Rightarrow> False)
      | _ \<Rightarrow> False)"

text \<open>
  A result object with exactly one entry per platform of the batch, in order, each with
  its loading flag set.
\<close>

definition allLoading :: "GenerationResult \<Rightarrow> bool" where
  "allLoading res =
     (map fst res = map property_key platforms \<and>
      list_all (\<lambda>kv. imageLoading (snd kv) = Some True) res)"






section \<open>Concrete inputs\<close>

text \<open>constants.ts: the ratios the settings panel offers besides \<open>AUTO\<close>.\<close>

definition ASPECT_RATIOS :: "string list" where
  "ASPECT_RATIOS = [''1:1'', ''2:3'', ''3:2'', ''3:4'', ''4:3'', ''9:16'', ''16:9'', ''21:9'']"

definition demoDraft :: Draft where
  "demoDraft = \<lparr>draft_text = js ''post'', draft_imagePrompt = js ''prompt'', draft_hashtags = None\<rparr>"

definition demoContent :: Content where
  "demoContent =
     \<lparr>linkedin = demoDraft, twitter = demoDraft,
      instagram = demoDraft\<lparr>draft_hashtags := Some [js ''#coffee'']\<rparr>, facebook = demoDraft\<rparr>"

text \<open>Four drafts that differ in their text and in their image prompt.\<close>

definition distinctContent :: Content where
  "distinctContent =
     \<lparr>linkedin = \<lparr>draft_text = js ''on LinkedIn'', draft_imagePrompt = js ''an office'',
                  draft_hashtags = None\<rparr>,
      twitter = \<lparr>draft_text = js ''on Twitter'', draft_imagePrompt = js ''a bird'',
                 draft_hashtags = None\<rparr>,
      instagram = \<lparr>draft_text = js ''on Instagram'', draft_imagePrompt = js ''a cup'',
                   draft_hashtags = Some [js ''#coffee'']\<rparr>,
      facebook = \<lparr>draft_text = js ''on Facebook'', draft_imagePrompt = js ''a family'',
                  draft_hashtags = None\<rparr>\<rparr>"

definition demoPost :: "PlatformValue \<Rightarrow> GeneratedPost" where
  "demoPost p = spreadDraft demoDraft p"



definition demoFatal :: ErrorValue where
  "demoFatal = ErrObject (js ''403 Forbidden'') None"

text \<open>
  The user types an idea and generates: the text call (continuation 0) is in flight.
  It resolves: the four image calls of the first cycle (continuations 1 to 4, in the
  order of \<open>platforms\<close>) are in flight.
\<close>

definition textPending :: App where
  "textPending = the (run False [SetIdea (js ''coffee''), ClickGenerate] (mounted True))"

definition inFlightState :: App where
  "inFlightState =
     the (run False [SetIdea (js ''coffee''), ClickGenerate, Settles 0 (GotContent demoContent)]
            (mounted True))"

text \<open>
  With the first batch in flight the user generates again, and the text call of the
  second cycle (continuation 5) resolves, which starts the second batch (continuations 6
  to 9). Then the LinkedIn image call of the first cycle resolves.
\<close>

definition staleTrace :: "Event list" where
  "staleTrace =
     [SetIdea (js ''coffee''), ClickGenerate, Settles 0 (GotContent demoContent),
      ClickGenerate, Settles 5 (GotContent demoContent)]"

definition staleState :: App where
  "staleState = the (run False staleTrace (mounted True))"

definition staleEvent :: Event where
  "staleEvent = Settles 1 (GotImage (js ''data:stale''))"

definition staleAfter :: App where
  "staleAfter = the (step False staleEvent staleState)"

text \<open>
  As \<open>staleTrace\<close>, but the LinkedIn image call of the first cycle rejects with a
  permission error while the text call of the second cycle is in flight.
\<close>

definition flaggedTrace :: "Event list" where
  "flaggedTrace =
     [SetIdea (js ''coffee''), ClickGenerate, Settles 0 (GotContent demoContent),
      ClickGenerate, Settles 1 (Failed demoFatal), Settles 5 (GotContent demoContent)]"


text \<open>
  After \<open>staleTrace\<close> the LinkedIn image call of the second cycle (continuation 6)
  resolves, so that the LinkedIn card offers regeneration.
\<close>

definition regenState :: App where
  "regenState =
     the (run False (staleTrace @ [Settles 6 (GotImage (js ''data:fresh''))]) (mounted True))"









section \<open>Basic facts\<close>

lemma js_simps: "js [] = []" "js (c # cs) = of_char c # js cs"
  by (simp_all add: js_def)

lemma platform_simps:
  "Platform ''LINKEDIN'' = Member ''LINKEDIN''"
  "Platform ''TWITTER'' = Member ''TWITTER''"
  "Platform ''INSTAGRAM'' = Member ''INSTAGRAM''"
  "Platform ''FACEBOOK'' = Undefined"
  by (simp_all add: Platform_def Platform_enum_def)

lemma platform_keys:
  "map property_key platforms = [''LINKEDIN'', ''TWITTER'', ''INSTAGRAM'', ''undefined'']"
  by (simp add: platforms_def platform_simps)

text \<open>The four platforms of a batch have four different property keys.\<close>

lemma property_key_inj:
  "q \<in> set platforms \<Longrightarrow> q' \<in> set platforms \<Longrightarrow> property_key q = property_key q' \<Longrightarrow> q = q'"
  by (auto simp: platforms_def platform_simps)

lemmas str_defs = trim_def isWhiteSpace_def whiteSpaceUnits_def js_simps startsWithHash_def
  toLowerCaseASCII_def

text \<open>\<open>includes\<close> is the contiguous-sublist relation of the library.\<close>

lemma str_includes_sublist: "str_includes s pat = sublist pat s"
  by (induction s) (simp_all add: sublist_Cons_right)

lemma dropWhile_all_iff: "(\<forall>x\<in>set (dropWhile P xs). P x) \<longleftrightarrow> dropWhile P xs = []"
proof
  assume all: "\<forall>x\<in>set (dropWhile P xs). P x"
  show "dropWhile P xs = []"
  proof (rule ccontr)
    assume ne: "dropWhile P xs \<noteq> []"
    then have "\<not> P (hd (dropWhile P xs))" by (rule hd_dropWhile)
    moreover from ne have "hd (dropWhile P xs) \<in> set (dropWhile P xs)" by simp
    ultimately show False using all by blast
  qed
next
  assume "dropWhile P xs = []"
  then show "\<forall>x\<in>set (dropWhile P xs). P x" by (simp del: dropWhile_eq_Nil_conv)
qed

text \<open>\<open>!s.trim()\<close> holds exactly for the strings made of white space only.\<close>

lemma trim_empty_iff: "trim s = [] \<longleftrightarrow> list_all isWhiteSpace s"
  by (simp add: trim_def dropWhile_eq_Nil_conv dropWhile_all_iff list_all_iff)

section \<open>The aspect ratio of an image request\<close>

text \<open>
  The configurations of an image request: \<open>aspectRatio\<close> has the type
  \<open>AspectRatio | 'AUTO'\<close>, whose values are \<open>AUTO\<close> and the eight ratios of
  \<open>ASPECT_RATIOS\<close>; the \<open>select\<close> of the settings panel, the only writer of the
  state, offers exactly these nine values.
\<close>

lemma configurations_are_table_keys:
  "set ASPECT_RATIOS = fst ` set safeRatioMap"
  by (auto simp: ASPECT_RATIOS_def safeRatioMap_def)

text \<open>
  \<^bold>\<open>C4.\<close> For each of the four platforms and every aspect-ratio configuration, the
  ratio that \<open>generateImageForPlatform\<close> sends is the specification's mapping applied to
  the resolved ratio: \<open>AUTO\<close> resolves to the platform default (LinkedIn 16:9, Twitter
  16:9, Instagram 1:1, Facebook 4:3), then 2:3 maps to 3:4, 3:2 to 4:3, 21:9 to 16:9, a
  supported ratio to itself and any other value to 1:1. The last case is the fall-back
  \<open>|| '1:1'\<close>: whenever the look-up of the resolved ratio in the table yields
  \<open>undefined\<close>, for a string outside the type too, the ratio sent is 1:1.
\<close>

theorem apiRatio_mapping:
  assumes "name \<in> set platformNames"
  shows "(ratio \<in> set (''AUTO'' # ASPECT_RATIOS) \<longrightarrow>
           apiRatio (Platform name) ratio =
             StringValue (spec_mapRatio (if ratio = ''AUTO'' then spec_platformDefault name else ratio))) \<and>
         (safeRatioMap_get (resolveRatio (Platform name) ratio) = UndefinedValue \<longrightarrow>
           apiRatio (Platform name) ratio = StringValue ''1:1'' \<and>
           spec_mapRatio (if ratio = ''AUTO'' then spec_platformDefault name else ratio) = ''1:1'')"
proof -
  have typed: "apiRatio (Platform name) ratio =
      StringValue (spec_mapRatio (if ratio = ''AUTO'' then spec_platformDefault name else ratio))"
    if "ratio \<in> set (''AUTO'' # ASPECT_RATIOS)"
    using assms that
    by (auto simp: platformNames_def platform_simps apiRatio_def resolveRatio_def
        safeRatioMap_get_def safeRatioMap_def spec_mapRatio_def spec_platformDefault_def
        spec_supported_def ASPECT_RATIOS_def)
  have fallback: "apiRatio (Platform name) ratio = StringValue ''1:1'' \<and>
      spec_mapRatio (if ratio = ''AUTO'' then spec_platformDefault name else ratio) = ''1:1''"
    if "safeRatioMap_get (resolveRatio (Platform name) ratio) = UndefinedValue"
    using assms that
    by (auto simp: platformNames_def platform_simps apiRatio_def resolveRatio_def
        safeRatioMap_get_def safeRatioMap_def spec_mapRatio_def spec_platformDefault_def
        spec_supported_def split: if_splits)
  from typed fallback show ?thesis by blast
qed

text \<open>
  For the Facebook platform: \<open>AUTO\<close> gives 4:3, the configuration 21:9 gives 16:9 and
  2:3 gives 3:4; the string 5:4, which is no configuration, is not in the table and gives
  1:1.
\<close>

theorem apiRatio_mapping_witness:
  "''FACEBOOK'' \<in> set platformNames \<and> ''AUTO'' \<in> set (''AUTO'' # ASPECT_RATIOS) \<and>
   ''21:9'' \<in> set (''AUTO'' # ASPECT_RATIOS) \<and> ''2:3'' \<in> set (''AUTO'' # ASPECT_RATIOS) \<and>
   safeRatioMap_get (resolveRatio (Platform ''FACEBOOK'') ''5:4'') = UndefinedValue \<and>
   apiRatio (Platform ''FACEBOOK'') ''AUTO'' = StringValue ''4:3'' \<and>
   apiRatio (Platform ''FACEBOOK'') ''21:9'' = StringValue ''16:9'' \<and>
   apiRatio (Platform ''FACEBOOK'') ''2:3'' = StringValue ''3:4'' \<and>
   apiRatio (Platform ''FACEBOOK'') ''5:4'' = StringValue ''1:1''"
proof -
  have h0: "''FACEBOOK'' \<in> set platformNames" by (simp add: platformNames_def)
  have h1: "''AUTO'' \<in> set (''AUTO'' # ASPECT_RATIOS)" "''21:9'' \<in> set (''AUTO'' # ASPECT_RATIOS)"
    "''2:3'' \<in> set (''AUTO'' # ASPECT_RATIOS)"
    by (simp_all add: ASPECT_RATIOS_def)
  have h2: "safeRatioMap_get (resolveRatio (Platform ''FACEBOOK'') ''5:4'') = UndefinedValue"
    by (simp add: resolveRatio_def safeRatioMap_get_def safeRatioMap_def Object_prototype_keys_def)
  have v: "spec_mapRatio (spec_platformDefault ''FACEBOOK'') = ''4:3''"
    "spec_mapRatio ''21:9'' = ''16:9''" "spec_mapRatio ''2:3'' = ''3:4''"
    by (simp_all add: spec_mapRatio_def spec_platformDefault_def spec_supported_def)
  from apiRatio_mapping [OF h0, of "''AUTO''"] h1(1) v(1)
  have a: "apiRatio (Platform ''FACEBOOK'') ''AUTO'' = StringValue ''4:3''" by simp
  from apiRatio_mapping [OF h0, of "''21:9''"] h1(2) v(2)
  have b: "apiRatio (Platform ''FACEBOOK'') ''21:9'' = StringValue ''16:9''" by simp
  from apiRatio_mapping [OF h0, of "''2:3''"] h1(3) v(3)
  have c: "apiRatio (Platform ''FACEBOOK'') ''2:3'' = StringValue ''3:4''" by simp
  from apiRatio_mapping [OF h0, of "''5:4''"] h2
  have d: "apiRatio (Platform ''FACEBOOK'') ''5:4'' = StringValue ''1:1''" by blast
  from h0 h1 h2 a b c d show ?thesis by blast
qed

text \<open>
  The table is an object literal, so a look-up also finds the properties that every
  object inherits: for the name of such a property, as \<open>constructor\<close>, the look-up is not
  \<open>undefined\<close>. No configuration is such a name.
\<close>

lemma inherited_names_are_no_configurations:
  "safeRatioMap_get ''constructor'' = InheritedValue ''constructor'' \<and>
   set (''AUTO'' # ASPECT_RATIOS) \<inter> set Object_prototype_keys = {}"
  by (simp add: safeRatioMap_get_def safeRatioMap_def ASPECT_RATIOS_def Object_prototype_keys_def)

section \<open>The classification of errors\<close>

text \<open>
  \<^bold>\<open>C2.\<close> \<open>handleApiError\<close> classifies an error as a permission error exactly when the
  error has a normalized message and that message contains \<open>403\<close>, \<open>PERMISSION_DENIED\<close>,
  \<open>The caller does not have permission\<close> or \<open>Requested entity was not found\<close>. The
  message of a string is the string; of an \<open>Error\<close> it is its message, followed by a
  space and the serialized response when there is one and it serializes; of any other
  value it is its serialization, and \<open>Unknown error\<close> when serializing throws. Only a
  value for which \<open>JSON.stringify\<close> returns \<open>undefined\<close> has no message (the handler
  then throws and classifies nothing). The handler sets the flag and drops the key
  exactly on a permission error met with the flag unset.
\<close>

theorem handleApiError_classification:
  "(classify error = Some True \<longleftrightarrow>
      (\<exists>message. errorMessage error = Some message \<and>
         (sublist (js ''403'') message \<or> sublist (js ''PERMISSION_DENIED'') message \<or>
          sublist (js ''The caller does not have permission'') message \<or>
          sublist (js ''Requested entity was not found'') message))) \<and>
   errorMessage (ErrString s) = Some s \<and>
   errorMessage (ErrObject m None) = Some m \<and>
   errorMessage (ErrObject m (Some (Json j))) = Some (m @ js '' '' @ j) \<and>
   errorMessage (ErrObject m (Some StringifyThrows)) = Some m \<and>
   errorMessage (ErrOther (Json j)) = Some j \<and>
   errorMessage (ErrOther StringifyThrows) = Some (js ''Unknown error'') \<and>
   (errorMessage error = None \<longleftrightarrow> error = ErrOther NoJson) \<and>
   permissionErrorRef (fst (handleApiError aistudio error st)) =
     (permissionErrorRef st \<or> classify error = Some True) \<and>
   hasKey (fst (handleApiError aistudio error st)) =
     (hasKey st \<and> (permissionErrorRef st \<or> classify error \<noteq> Some True))"
proof -
  have none: "errorMessage error = None \<longleftrightarrow> error = ErrOther NoJson"
    by (cases error rule: errorMessage.cases) simp_all
  have rest: "(classify error = Some True \<longleftrightarrow>
      (\<exists>message. errorMessage error = Some message \<and>
         (sublist (js ''403'') message \<or> sublist (js ''PERMISSION_DENIED'') message \<or>
          sublist (js ''The caller does not have permission'') message \<or>
          sublist (js ''Requested entity was not found'') message))) \<and>
   permissionErrorRef (fst (handleApiError aistudio error st)) =
     (permissionErrorRef st \<or> classify error = Some True) \<and>
   hasKey (fst (handleApiError aistudio error st)) =
     (hasKey st \<and> (permissionErrorRef st \<or> classify error \<noteq> Some True))"
    by (auto simp: classify_def isPermissionError_def str_includes_sublist handleApiError_def
        Let_def split: option.splits)
  from none rest show ?thesis by simp
qed

theorem handleApiError_classification_witness:
  "classify (ErrObject (js ''PERMISSION_DENIED'') None) = Some True \<and>
   classify (ErrString (js ''HTTP 403'')) = Some True \<and>
   classify (ErrObject (js ''failed'') (Some (Json (js ''Requested entity was not found'')))) =
     Some True \<and>
   classify (ErrOther StringifyThrows) = Some False \<and>
   classify (ErrOther NoJson) = None"
  using handleApiError_classification [of "ErrObject (js ''PERMISSION_DENIED'') None"]
  by (simp add: classify_def isPermissionError_def js_simps)

section \<open>A blank idea\<close>

text \<open>
  \<^bold>\<open>C5.\<close> When the idea is empty or consists of white space only, \<open>handleGenerate\<close>
  returns the state as it is: no field of the state changes, no call is made and
  nothing is awaited.
\<close>

theorem blank_idea_is_noop:
  "list_all isWhiteSpace (idea st) \<Longrightarrow> handleGenerate st = st"
  by (simp add: handleGenerate_def trim_empty_iff)

theorem blank_idea_is_noop_witness:
  "list_all isWhiteSpace (idea ((mounted True)\<lparr>idea := [0x20, 0x3000, 0x09]\<rparr>)) \<and>
   handleGenerate ((mounted True)\<lparr>idea := [0x20, 0x3000, 0x09]\<rparr>) =
     (mounted True)\<lparr>idea := [0x20, 0x3000, 0x09]\<rparr> \<and>
   calls (handleGenerate ((mounted True)\<lparr>idea := [0x20, 0x3000, 0x09]\<rparr>)) = [] \<and>
   handleGenerate (mounted True) = mounted True"
  using blank_idea_is_noop [of "(mounted True)\<lparr>idea := [0x20, 0x3000, 0x09]\<rparr>"]
    blank_idea_is_noop [of "mounted True"]
  by (simp add: isWhiteSpace_def whiteSpaceUnits_def mounted_def)

section \<open>The hashtag list\<close>

lemma remove_enumerate:
  "map snd (filter (\<lambda>(index, _). index \<noteq> j) (enumerate n xs)) =
     (if n \<le> j \<and> j < n + length xs then take (j - n) xs @ drop (Suc (j - n)) xs else xs)"
proof (induction xs arbitrary: n)
  case Nil
  then show ?case by simp
next
  case (Cons x xs)
  consider (eq) "n = j" | (less) "n < j" | (greater) "j < n" by arith
  then show ?case
  proof cases
    case eq
    then show ?thesis using Cons [of "Suc n"] by simp
  next
    case less
    then have "j - n = Suc (j - Suc n)" by arith
    with less show ?thesis using Cons [of "Suc n"] by auto
  next
    case greater
    then show ?thesis using Cons [of "Suc n"] by simp
  qed
qed

lemma removeHashtag_eq:
  "removeHashtag k tags =
     (if 0 \<le> k \<and> k < int (length tags) then take (nat k) tags @ drop (Suc (nat k)) tags else tags)"
proof (cases "0 \<le> k")
  case True
  then have "(\<lambda>(index::nat, _::jsstring). int index \<noteq> k) = (\<lambda>(index, _). index \<noteq> nat k)"
    by (auto simp: fun_eq_iff)
  then show ?thesis using True by (auto simp: removeHashtag_def remove_enumerate)
next
  case False
  then have "(\<lambda>(index::nat, _::jsstring). int index \<noteq> k) = (\<lambda>_. True)"
    by (auto simp: fun_eq_iff)
  then show ?thesis using False by (simp add: removeHashtag_def)
qed

text \<open>
  \<^bold>\<open>C9\<close> (amended). For every hashtag list and every input: when the input is not blank
  and its normalized tag has no duplicate in the list under case-insensitive comparison,
  adding appends the normalized tag and empties the input, where the normalized tag is
  the trimmed input, prefixed with \<open>#\<close> unless it starts with one; when the input is
  blank or its normalized tag has such a duplicate, the list stays as it is; removing
  index \<open>i\<close> of the list yields the tags before \<open>i\<close> followed by the tags after
  \<open>i\<close>, and removing an index outside the list changes nothing.
\<close>

theorem hashtag_editing:
  "(trim input \<noteq> [] \<and> \<not> list_ex (\<lambda>t. lower t = lower (normalizedTag input)) tags \<longrightarrow>
      addHashtag lower (tags, input) = (tags @ [normalizedTag input], [])) \<and>
   (\<not> startsWithHash (trim input) \<longrightarrow> normalizedTag input = js ''#'' @ trim input) \<and>
   (startsWithHash (trim input) \<longrightarrow> normalizedTag input = trim input) \<and>
   (trim input = [] \<or> list_ex (\<lambda>t. lower t = lower (normalizedTag input)) tags \<longrightarrow>
      fst (addHashtag lower (tags, input)) = tags) \<and>
   (i < length tags \<longrightarrow> removeHashtag (int i) tags = take i tags @ drop (Suc i) tags) \<and>
   (k < 0 \<or> int (length tags) \<le> k \<longrightarrow> removeHashtag k tags = tags)"
  by (auto simp: addHashtag_def normalizedTag_def Let_def removeHashtag_eq)

theorem hashtag_editing_witness:
  "addHashtag toLowerCaseASCII ([js ''#coffee''], js ''launch'') =
     ([js ''#coffee'', js ''#launch''], []) \<and>
   fst (addHashtag toLowerCaseASCII ([js ''#coffee'', js ''#launch''], js ''#LAUNCH'')) =
     [js ''#coffee'', js ''#launch''] \<and>
   removeHashtag 1 [js ''#a'', js ''#b'', js ''#c''] = [js ''#a'', js ''#c'']"
  using hashtag_editing [where input = "js ''launch''" and lower = toLowerCaseASCII
      and tags = "[js ''#coffee'']" and i = 0 and k = 0]
    hashtag_editing [where input = "js ''#LAUNCH''" and lower = toLowerCaseASCII
      and tags = "[js ''#coffee'', js ''#launch'']" and i = 0 and k = 0]
    hashtag_editing [where input = "js ''x''" and lower = toLowerCaseASCII
      and tags = "[js ''#a'', js ''#b'', js ''#c'']" and i = 1 and k = 0]
  by (simp add: str_defs normalizedTag_def)

text \<open>
  C9 as stated fails on white space: a single blank is a non-empty input without a
  leading \<open>#\<close> and nothing is stored for it; and \<open>"launch "\<close> is stored as \<open>"#launch"\<close>,
  not as the input prefixed with \<open>#\<close>.
\<close>

theorem hashtag_prefix_counterexample:
  "js '' '' \<noteq> [] \<and> \<not> startsWithHash (js '' '') \<and>
   addHashtag toLowerCaseASCII ([], js '' '') = ([], js '' '') \<and>
   fst (addHashtag toLowerCaseASCII ([], js '' '')) \<noteq> [js ''#'' @ js '' ''] \<and>
   \<not> startsWithHash (js ''launch '') \<and>
   fst (addHashtag toLowerCaseASCII ([], js ''launch '')) = [js ''#launch''] \<and>
   fst (addHashtag toLowerCaseASCII ([], js ''launch '')) \<noteq> [js ''#'' @ js ''launch '']"
  by (simp add: addHashtag_def normalizedTag_def str_defs)

section \<open>Which entries an update touches\<close>

lemma results_await [simp]: "results (await k st) = results st"
  by (simp add: await_def)

lemma results_settle [simp]: "results (settle c p s st) = results st"
  by (simp add: settle_def)

lemma entry_cong: "results st' = results st \<Longrightarrow> entry st' k = entry st k"
  by (simp add: entry_def)

lemma entry_await [simp]: "entry (await k st) = entry st"
  by (rule ext) (simp add: entry_def)


lemma results_handleApiError [simp]: "results (fst (handleApiError aistudio error st)) = results st"
  by (simp add: handleApiError_def Let_def split: option.splits)

lemma results_afterSelectKey [simp]: "results (afterSelectKey b st) = results st"
  by (simp add: afterSelectKey_def)

lemma results_updated:
  "results (setResults (updatePost p f) st) = None \<longleftrightarrow> results st = None"
  by (simp add: setResults_def)

lemma entry_updated:
  "entry (setResults (updatePost p f) st) k =
     (case results st of
        None \<Rightarrow> None
      | Some res \<Rightarrow>
          if k = property_key p
          then Some (f (case map_of res k of None \<Rightarrow> emptyPost | Some e \<Rightarrow> e))
          else map_of res k)"
  by (simp add: entry_def setResults_def updatePost_def update_conv' split: option.splits)

lemma touchesOnly_refl: "results st' = results st \<Longrightarrow> touchesOnly p st st'"
  by (simp add: touchesOnly_def entry_def sameDraft_def)

lemma touchesOnly_trans:
  "touchesOnly p a b \<Longrightarrow> touchesOnly p b c \<Longrightarrow> touchesOnly p a c"
proof -
  assume ab: "touchesOnly p a b" and bc: "touchesOnly p b c"
  have 1: "results a = None \<longrightarrow> results c = None"
    using ab bc by (simp add: touchesOnly_def)
  have 2: "\<forall>k. k \<noteq> property_key p \<longrightarrow> entry c k = entry a k"
    using ab bc by (simp add: touchesOnly_def)
  have 3: "\<forall>e. entry a (property_key p) = Some e \<longrightarrow>
         (\<exists>e'. entry c (property_key p) = Some e' \<and> sameDraft e e')"
  proof (intro allI impI)
    fix e assume "entry a (property_key p) = Some e"
    then obtain e1 where e1: "entry b (property_key p) = Some e1" "sameDraft e e1"
      using ab unfolding touchesOnly_def by blast
    then obtain e2 where e2: "entry c (property_key p) = Some e2" "sameDraft e1 e2"
      using bc unfolding touchesOnly_def by blast
    from e1(2) e2(2) have "sameDraft e e2" by (simp add: sameDraft_def)
    with e2(1) show "\<exists>e'. entry c (property_key p) = Some e' \<and> sameDraft e e'" by blast
  qed
  from 1 2 3 show ?thesis unfolding touchesOnly_def by blast
qed

lemma touchesOnly_updated:
  assumes "\<And>e. sameDraft e (f e)"
  shows "touchesOnly p st (setResults (updatePost p f) st)"
proof (cases "results st")
  case None
  then show ?thesis by (simp add: touchesOnly_def entry_def setResults_def)
next
  case (Some res)
  then show ?thesis
    unfolding touchesOnly_def using assms
    by (simp add: entry_def setResults_def updatePost_def update_conv')
qed

lemma touchesOnly_storeImage: "touchesOnly p st (storeImage p url st)"
  unfolding storeImage_def by (rule touchesOnly_updated) (simp add: sameDraft_def)

lemma touchesOnly_clearLoading: "touchesOnly p st (clearLoading p st)"
  unfolding clearLoading_def by (rule touchesOnly_updated) (simp add: sameDraft_def)

lemma touchesOnly_markRegenerating: "touchesOnly p st (markRegenerating p st)"
  unfolding markRegenerating_def by (rule touchesOnly_updated) (simp add: sameDraft_def)

lemma touchesOnly_results_left: "results a' = results a \<Longrightarrow> touchesOnly p a b \<Longrightarrow> touchesOnly p a' b"
  by (simp add: touchesOnly_def entry_def)

lemma touchesOnly_results_right: "results b' = results b \<Longrightarrow> touchesOnly p a b \<Longrightarrow> touchesOnly p a b'"
  by (simp add: touchesOnly_def entry_def)

lemma touchesOnly_taskFinish: "touchesOnly p st (taskFinish c p st)"
  unfolding taskFinish_def
  by (rule touchesOnly_results_right [OF _ touchesOnly_clearLoading]) simp

lemma touchesOnly_taskResolved: "touchesOnly p st (taskResolved c p url st)"
  unfolding taskResolved_def
  by (rule touchesOnly_results_right [OF _ touchesOnly_storeImage]) simp

lemma results_handleApiError_await:
  "results (case handleApiError aistudio error st of (st', outcome) \<Rightarrow> await (k outcome) st') = results st"
  by (cases "handleApiError aistudio error st") (metis fst_conv results_await results_handleApiError case_prod_conv)

lemma touchesOnly_taskCatch: "touchesOnly p st (taskCatch aistudio c p error st)"
  unfolding taskCatch_def
  by (simp add: touchesOnly_taskFinish touchesOnly_refl results_handleApiError_await)

lemma touchesOnly_regenerateCatch: "touchesOnly p st (regenerateCatch aistudio p error st)"
  unfolding regenerateCatch_def
  by (simp add: touchesOnly_refl results_handleApiError_await)

lemma touchesOnly_resumeCaller_batch: "touchesOnly p st (taskFinish c p (afterSelectKey b st))"
  by (rule touchesOnly_results_left [OF _ touchesOnly_taskFinish]) simp


lemma touchesOnly_handleRegenerateImage: "touchesOnly p st (handleRegenerateImage aistudio p st)"
proof (cases "results st")
  case None
  then show ?thesis by (simp add: handleRegenerateImage_def touchesOnly_refl)
next
  case (Some res)
  let ?st0 = "st\<lparr>permissionErrorRef := False\<rparr>"
  let ?st1 = "markRegenerating p ?st0"
  have a: "touchesOnly p st ?st1"
    by (rule touchesOnly_results_left [OF _ touchesOnly_markRegenerating]) simp
  have b: "touchesOnly p ?st1 (handleRegenerateImage aistudio p st)"
    using Some
    by (auto simp: handleRegenerateImage_def Let_def touchesOnly_regenerateCatch touchesOnly_refl
        split: option.splits)
  from a b show ?thesis by (rule touchesOnly_trans)
qed

lemma resume_task_touchesOnly:
  assumes "resume aistudio k out st = Some st'"
    and "k = TaskAwaitsImage c p \<or> (\<exists>x. k = AwaitsApiError (InBatch c p) x)"
  shows "touchesOnly p st st'"
proof -
  from assms(2) consider (img) "k = TaskAwaitsImage c p" | (err) x where "k = AwaitsApiError (InBatch c p) x"
    by blast
  then show ?thesis
  proof cases
    case img
    with assms(1) show ?thesis
      by (cases out) (auto simp: touchesOnly_taskResolved touchesOnly_taskCatch)
  next
    case err
    with assms(1) show ?thesis
      by (cases x; cases out)
        (auto simp: touchesOnly_taskFinish touchesOnly_refl touchesOnly_resumeCaller_batch)
  qed
qed

lemma resume_regenerate_touchesOnly:
  assumes "resume aistudio k out st = Some st'"
    and "k = RegenerateAwaitsImage p \<or> (\<exists>x. k = AwaitsApiError (InRegenerate p) x)"
  shows "touchesOnly p st st'"
proof -
  from assms(2) consider (img) "k = RegenerateAwaitsImage p" | (err) x where "k = AwaitsApiError (InRegenerate p) x"
    by blast
  then show ?thesis
  proof cases
    case img
    with assms(1) show ?thesis
      by (cases out) (auto simp: touchesOnly_storeImage touchesOnly_regenerateCatch)
  next
    case err
    have "touchesOnly p st (clearLoading p (afterSelectKey b st))" for b
      by (rule touchesOnly_results_left [OF _ touchesOnly_clearLoading]) simp
    with err assms(1) show ?thesis
      by (cases x; cases out) (auto simp: touchesOnly_clearLoading touchesOnly_refl)
  qed
qed

section \<open>Completions of image tasks and the live results\<close>

text \<open>
  \<^bold>\<open>C1\<close> (amended). Whatever the cycle of its batch, also an earlier one than the
  current cycle: when the image call of a task settles, or the \<open>handleApiError\<close> call the
  task awaits does, the handler leaves empty results empty (the results are empty from
  the start of a cycle until its text generation resolves), and in results that are
  live it changes at most the image reference and the loading flag of the entry of its
  own platform; the entries of the other platforms are as before.
\<close>

theorem image_completion_touches_own_entry:
  assumes "p \<in> set platforms" and "taskEvent c p st ev" and "step aistudio ev st = Some st'"
  shows "touchesOnly p st st' \<and>
         (\<forall>q\<in>set platforms. q \<noteq> p \<longrightarrow> entry st' (property_key q) = entry st (property_key q))"
proof -
  from assms(2) obtain i out where ev: "ev = Settles i out"
    by (cases ev) (simp_all add: taskEvent_def)
  from assms(2) ev obtain k where k: "map_of (pending st) i = Some k"
    and kind: "k = TaskAwaitsImage c p \<or> (\<exists>x. k = AwaitsApiError (InBatch c p) x)"
    by (auto simp: taskEvent_def split: option.splits Continuation.splits Caller.splits)
  let ?st = "st\<lparr>pending := AList.delete i (pending st)\<rparr>"
  from assms(3) ev k have "resume aistudio k out ?st = Some st'"
    by (simp add: step_def)
  then have "touchesOnly p ?st st'" using kind by (rule resume_task_touchesOnly)
  then have t: "touchesOnly p st st'" by (rule touchesOnly_results_left [rotated]) simp
  have "entry st' (property_key q) = entry st (property_key q)"
    if "q \<in> set platforms" "q \<noteq> p" for q
  proof -
    from that assms(1) have "property_key q \<noteq> property_key p"
      using property_key_inj by blast
    with t show ?thesis unfolding touchesOnly_def by blast
  qed
  with t show ?thesis by blast
qed

text \<open>
  The stale completion of the concrete run: it belongs to cycle 1, the current cycle is 2,
  and it writes its image into the LinkedIn entry of the results of cycle 2.
\<close>

theorem image_completion_touches_own_entry_witness:
  "taskEvent 1 (Platform ''LINKEDIN'') staleState staleEvent \<and>
   step False staleEvent staleState = Some staleAfter \<and>
   touchesOnly (Platform ''LINKEDIN'') staleState staleAfter \<and>
   cycle staleState = 2 \<and>
   map_option imageUrl (entry staleState ''LINKEDIN'') = Some None \<and>
   map_option imageUrl (entry staleAfter ''LINKEDIN'') = Some (Some (js ''data:stale'')) \<and>
   entry staleAfter ''TWITTER'' = entry staleState ''TWITTER''"
proof -
  have h1: "taskEvent 1 (Platform ''LINKEDIN'') staleState staleEvent" by code_simp
  have h2: "step False staleEvent staleState = Some staleAfter" by code_simp
  have h3: "cycle staleState = 2 \<and>
   map_option imageUrl (entry staleState ''LINKEDIN'') = Some None \<and>
   map_option imageUrl (entry staleAfter ''LINKEDIN'') = Some (Some (js ''data:stale''))"
    by code_simp
  have key: "''TWITTER'' \<noteq> property_key (Platform ''LINKEDIN'')"
    by (simp add: platform_simps)
  have h0: "Platform ''LINKEDIN'' \<in> set platforms" by (simp add: platforms_def)
  from image_completion_touches_own_entry [OF h0 h1 h2]
  have t: "touchesOnly (Platform ''LINKEDIN'') staleState staleAfter" by blast
  then have "entry staleAfter ''TWITTER'' = entry staleState ''TWITTER''"
    using key unfolding touchesOnly_def by blast
  with h1 h2 h3 t show ?thesis by blast
qed

text \<open>
  C1 as stated fails. After \<open>staleTrace\<close> the current cycle is 2, its results are
  installed with all four entries loading, and the image calls of cycle 1 are still in
  flight. The LinkedIn call of cycle 1 resolves: its image is written into the results
  of cycle 2 and the loading flag there is cleared. The Twitter call of cycle 1 rejects:
  the loading flag of the Twitter entry of cycle 2 is cleared, while the call of cycle 2
  is in flight.
\<close>

theorem stale_completion_counterexample:
  "map_option cycle (run False staleTrace (mounted True)) = Some 2 \<and>
   map_option pending (run False staleTrace (mounted True)) =
     Some [(1, TaskAwaitsImage 1 (Platform ''LINKEDIN'')), (2, TaskAwaitsImage 1 (Platform ''TWITTER'')),
           (3, TaskAwaitsImage 1 (Platform ''INSTAGRAM'')), (4, TaskAwaitsImage 1 (Platform ''FACEBOOK'')),
           (6, TaskAwaitsImage 2 (Platform ''LINKEDIN'')), (7, TaskAwaitsImage 2 (Platform ''TWITTER'')),
           (8, TaskAwaitsImage 2 (Platform ''INSTAGRAM'')), (9, TaskAwaitsImage 2 (Platform ''FACEBOOK''))] \<and>
   map_option results (run False staleTrace (mounted True)) =
     Some (Some
       [(''LINKEDIN'', (demoPost (Platform ''LINKEDIN''))\<lparr>imageLoading := Some True\<rparr>),
        (''TWITTER'', (demoPost (Platform ''TWITTER''))\<lparr>imageLoading := Some True\<rparr>),
        (''INSTAGRAM'', (demoPost (Platform ''INSTAGRAM''))\<lparr>hashtags := Some [js ''#coffee''], imageLoading := Some True\<rparr>),
        (''undefined'', (demoPost (Platform ''FACEBOOK''))\<lparr>imageLoading := Some True\<rparr>)]) \<and>
   map_option results
     (run False (staleTrace @ [Settles 1 (GotImage (js ''data:stale''))]) (mounted True)) =
     Some (Some
       [(''LINKEDIN'', (demoPost (Platform ''LINKEDIN''))\<lparr>imageUrl := Some (js ''data:stale''), imageLoading := Some False\<rparr>),
        (''TWITTER'', (demoPost (Platform ''TWITTER''))\<lparr>imageLoading := Some True\<rparr>),
        (''INSTAGRAM'', (demoPost (Platform ''INSTAGRAM''))\<lparr>hashtags := Some [js ''#coffee''], imageLoading := Some True\<rparr>),
        (''undefined'', (demoPost (Platform ''FACEBOOK''))\<lparr>imageLoading := Some True\<rparr>)]) \<and>
   map_option results
     (run False (staleTrace @ [Settles 2 (Failed (ErrString (js ''timeout''))), Settles 10 Completed]) (mounted True)) =
     Some (Some
       [(''LINKEDIN'', (demoPost (Platform ''LINKEDIN''))\<lparr>imageLoading := Some True\<rparr>),
        (''TWITTER'', (demoPost (Platform ''TWITTER''))\<lparr>imageLoading := Some False\<rparr>),
        (''INSTAGRAM'', (demoPost (Platform ''INSTAGRAM''))\<lparr>hashtags := Some [js ''#coffee''], imageLoading := Some True\<rparr>),
        (''undefined'', (demoPost (Platform ''FACEBOOK''))\<lparr>imageLoading := Some True\<rparr>)])"
  by code_simp


section \<open>Regenerating one image\<close>

text \<open>
  \<^bold>\<open>C8.\<close> Every part of \<open>handleRegenerateImage(P)\<close>, its invocation and each of its
  continuations, whether the image call resolves or rejects, leaves the entries of the
  other three platforms unchanged (text, hashtags, image prompt, image reference and
  loading flag), and changes at most the image reference and the loading flag of the
  entry of \<open>P\<close>.
\<close>

theorem regenerate_touches_own_entry:
  assumes "p \<in> set platforms" and "regenerateEvent p st ev" and "step aistudio ev st = Some st'"
  shows "touchesOnly p st st' \<and>
         (\<forall>q\<in>set platforms. q \<noteq> p \<longrightarrow> entry st' (property_key q) = entry st (property_key q))"
proof -
  have t: "touchesOnly p st st'"
  proof (cases ev)
    case (ClickRegenerate q)
    with assms(2,3) show ?thesis
      by (auto simp: regenerateEvent_def step_def touchesOnly_handleRegenerateImage)
  next
    case (Settles i out)
    with assms(2) obtain k where k: "map_of (pending st) i = Some k"
      and kind: "k = RegenerateAwaitsImage p \<or> (\<exists>x. k = AwaitsApiError (InRegenerate p) x)"
      by (auto simp: regenerateEvent_def split: option.splits Continuation.splits Caller.splits)
    let ?st = "st\<lparr>pending := AList.delete i (pending st)\<rparr>"
    from assms(3) Settles k have "resume aistudio k out ?st = Some st'"
      by (simp add: step_def)
    then have "touchesOnly p ?st st'" using kind by (rule resume_regenerate_touchesOnly)
    then show ?thesis by (rule touchesOnly_results_left [rotated]) simp
  qed (use assms(2) in \<open>simp_all add: regenerateEvent_def\<close>)
  have "entry st' (property_key q) = entry st (property_key q)"
    if "q \<in> set platforms" "q \<noteq> p" for q
  proof -
    from that assms(1) have "property_key q \<noteq> property_key p"
      using property_key_inj by blast
    with t show ?thesis unfolding touchesOnly_def by blast
  qed
  with t show ?thesis by blast
qed

theorem regenerate_touches_own_entry_witness:
  "offered (ClickRegenerate (Platform ''LINKEDIN'')) regenState \<and>
   regenerateEvent (Platform ''LINKEDIN'') regenState (ClickRegenerate (Platform ''LINKEDIN'')) \<and>
   step False (ClickRegenerate (Platform ''LINKEDIN'')) regenState =
     Some (handleRegenerateImage False (Platform ''LINKEDIN'') regenState) \<and>
   touchesOnly (Platform ''LINKEDIN'') regenState
     (handleRegenerateImage False (Platform ''LINKEDIN'') regenState) \<and>
   map_option imageLoading (entry regenState ''LINKEDIN'') = Some (Some False) \<and>
   map_option imageLoading
     (entry (handleRegenerateImage False (Platform ''LINKEDIN'') regenState) ''LINKEDIN'') =
     Some (Some True) \<and>
   entry (handleRegenerateImage False (Platform ''LINKEDIN'') regenState) ''INSTAGRAM'' =
     entry regenState ''INSTAGRAM''"
proof -
  have h0: "offered (ClickRegenerate (Platform ''LINKEDIN'')) regenState" by code_simp
  have h1: "regenerateEvent (Platform ''LINKEDIN'') regenState (ClickRegenerate (Platform ''LINKEDIN''))"
    by code_simp
  have h2: "step False (ClickRegenerate (Platform ''LINKEDIN'')) regenState =
     Some (handleRegenerateImage False (Platform ''LINKEDIN'') regenState)"
    by (simp add: step_def)
  have h3: "map_option imageLoading (entry regenState ''LINKEDIN'') = Some (Some False) \<and>
   map_option imageLoading
     (entry (handleRegenerateImage False (Platform ''LINKEDIN'') regenState) ''LINKEDIN'') =
     Some (Some True)"
    by code_simp
  have key: "''INSTAGRAM'' \<noteq> property_key (Platform ''LINKEDIN'')"
    by (simp add: platform_simps)
  have hp: "Platform ''LINKEDIN'' \<in> set platforms" by (simp add: platforms_def)
  from regenerate_touches_own_entry [OF hp h1 h2]
  have t: "touchesOnly (Platform ''LINKEDIN'') regenState
     (handleRegenerateImage False (Platform ''LINKEDIN'') regenState)" by blast
  then have "entry (handleRegenerateImage False (Platform ''LINKEDIN'') regenState) ''INSTAGRAM'' =
     entry regenState ''INSTAGRAM''"
    using key unfolding touchesOnly_def by blast
  with h0 h1 h2 h3 t show ?thesis by blast
qed


section \<open>The short circuit on the permission flag\<close>


lemma fields_settle [simp]:
  "calls (settle c p s st) = calls st" "pending (settle c p s st) = pending st"
  "alerts (settle c p s st) = alerts st" "hasKey (settle c p s st) = hasKey st"
  "permissionErrorRef (settle c p s st) = permissionErrorRef st"
  by (simp_all add: settle_def)

lemma fields_setResults [simp]:
  "calls (setResults f st) = calls st" "pending (setResults f st) = pending st"
  "alerts (setResults f st) = alerts st" "hasKey (setResults f st) = hasKey st"
  "permissionErrorRef (setResults f st) = permissionErrorRef st" "tasks (setResults f st) = tasks st"
  by (simp_all add: setResults_def)

lemma taskStatus_settle [simp]: "taskStatus (settle c p s st) c p = Some s"
  by (simp add: taskStatus_def settle_def update_conv')







section \<open>The state after a text generation\<close>

lemma newResults_keys: "map fst (newResults content) = map property_key platforms"
  by (simp add: newResults_def platform_keys platform_simps)

lemma markLoading_newResults:
  "markLoading platforms (newResults content) =
     Some (map (\<lambda>kv. (fst kv, (snd kv)\<lparr>imageLoading := Some True\<rparr>)) (newResults content))"
  by (simp add: platforms_def platform_simps newResults_def)

lemma allLoading_marked:
  "allLoading (map (\<lambda>kv. (fst kv, (snd kv)\<lparr>imageLoading := Some True\<rparr>)) (newResults content))"
  by (simp add: allLoading_def newResults_keys comp_def list_all_iff)

lemma setAllLoading_newResults:
  "setAllLoading (st\<lparr>results := Some (newResults content)\<rparr>) =
     st\<lparr>results := Some (map (\<lambda>kv. (fst kv, (snd kv)\<lparr>imageLoading := Some True\<rparr>)) (newResults content))\<rparr>"
  by (simp add: setAllLoading_def markLoading_newResults)

lemma generateResolved_unflagged:
  assumes "\<not> permissionErrorRef st"
  shows "generateResolved aistudio c ar sz content st =
     st\<lparr>results := Some (map (\<lambda>kv. (fst kv, (snd kv)\<lparr>imageLoading := Some True\<rparr>)) (newResults content)),
        calls := calls st @ map (\<lambda>kv. ImageCall (imagePrompt (snd kv)) (platform (snd kv)) ar sz) (newResults content),
        pending := pending st @ map (\<lambda>n. (nextId st + n, TaskAwaitsImage c (platforms ! n))) [0, 1, 2, 3],
        nextId := nextId st + 4,
        tasks := fold (\<lambda>p. AList.update (c, property_key p) Running) platforms (tasks st),
        isGeneratingText := False\<rparr>"
  using assms
  by (simp add: generateResolved_def generateAllImages_def setAllLoading_newResults)
     (simp add: startTask_def platforms_def platform_simps newResults_def await_def settle_def spreadDraft_def)

lemma generateResolved_flagged:
  assumes "permissionErrorRef st"
  shows "generateResolved aistudio c ar sz content st =
     st\<lparr>results := Some (map (\<lambda>kv. (fst kv, (snd kv)\<lparr>imageLoading := Some False\<rparr>)) (newResults content)),
        tasks := fold (\<lambda>p. AList.update (c, property_key p) Fulfilled) platforms (tasks st),
        isGeneratingText := False\<rparr>"
  using assms
  by (simp add: generateResolved_def generateAllImages_def setAllLoading_newResults)
     (simp add: startTask_def platforms_def platform_simps newResults_def settle_def spreadDraft_def
        clearLoading_def setResults_def updatePost_def)

lemma allCleared_marked:
  "map fst (map (\<lambda>kv. (fst kv, (snd kv)\<lparr>imageLoading := Some False\<rparr>)) (newResults content)) =
     map property_key platforms \<and>
   list_all (\<lambda>kv. imageLoading (snd kv) = Some False)
     (map (\<lambda>kv. (fst kv, (snd kv)\<lparr>imageLoading := Some False\<rparr>)) (newResults content))"
  by (simp add: newResults_keys comp_def list_all_iff)

text \<open>
  \<^bold>\<open>C6\<close> (amended). After a successful text generation the all-loading state is applied
  in one state update, before any image call is made: the results then hold exactly one
  entry per platform (four different keys), each with its loading flag set. When the
  permission flag is not set at that moment, this is still the state when the handler
  has finished, with the four image calls made and in flight. When the flag is set at
  that moment, the handler finishes with the loading flag of every entry cleared, and
  no image call is made.
\<close>

theorem all_loading_after_text:
  "(let st1 = setAllLoading (st\<lparr>results := Some (newResults content)\<rparr>) in
      (\<exists>res. results st1 = Some res \<and> allLoading res) \<and>
      calls st1 = calls st \<and> pending st1 = pending st \<and> renderFailed st1 = renderFailed st) \<and>
   distinct (map property_key platforms) \<and> length platforms = 4 \<and>
   (\<not> permissionErrorRef st \<and> map_of (pending st) i = Some (GenerateAwaitsText c ar sz) \<longrightarrow>
      (\<exists>st'. step aistudio (Settles i (GotContent content)) st = Some st' \<and>
         (\<exists>res. results st' = Some res \<and> allLoading res) \<and>
         calls st' =
           calls st @ map (\<lambda>kv. ImageCall (imagePrompt (snd kv)) (platform (snd kv)) ar sz) (newResults content) \<and>
         map snd (pending st') =
           map snd (AList.delete i (pending st)) @ map (TaskAwaitsImage c) platforms)) \<and>
   (permissionErrorRef st \<and> map_of (pending st) i = Some (GenerateAwaitsText c ar sz) \<longrightarrow>
      (\<exists>st'. step aistudio (Settles i (GotContent content)) st = Some st' \<and>
         (\<exists>res. results st' = Some res \<and> map fst res = map property_key platforms \<and>
            list_all (\<lambda>kv. imageLoading (snd kv) = Some False) res) \<and>
         calls st' = calls st \<and> pending st' = AList.delete i (pending st)))"
proof -
  have 1: "let st1 = setAllLoading (st\<lparr>results := Some (newResults content)\<rparr>) in
      (\<exists>res. results st1 = Some res \<and> allLoading res) \<and>
      calls st1 = calls st \<and> pending st1 = pending st \<and> renderFailed st1 = renderFailed st"
    by (simp add: setAllLoading_newResults allLoading_marked)
  have 2: "distinct (map property_key platforms) \<and> length platforms = 4"
    by (simp add: platform_keys) (simp add: platforms_def)
  have 3: "\<exists>st'. step aistudio (Settles i (GotContent content)) st = Some st' \<and>
         (\<exists>res. results st' = Some res \<and> allLoading res) \<and>
         calls st' =
           calls st @ map (\<lambda>kv. ImageCall (imagePrompt (snd kv)) (platform (snd kv)) ar sz) (newResults content) \<and>
         map snd (pending st') =
           map snd (AList.delete i (pending st)) @ map (TaskAwaitsImage c) platforms"
    if "\<not> permissionErrorRef st" "map_of (pending st) i = Some (GenerateAwaitsText c ar sz)"
  proof -
    let ?d = "st\<lparr>pending := AList.delete i (pending st)\<rparr>"
    have "step aistudio (Settles i (GotContent content)) st = Some (generateResolved aistudio c ar sz content ?d)"
      using that by (simp add: step_def)
    moreover have "\<not> permissionErrorRef ?d" using that by simp
    ultimately show ?thesis
      by (simp add: generateResolved_unflagged allLoading_marked) (simp add: platforms_def)
  qed
  have 4: "\<exists>st'. step aistudio (Settles i (GotContent content)) st = Some st' \<and>
         (\<exists>res. results st' = Some res \<and> map fst res = map property_key platforms \<and>
            list_all (\<lambda>kv. imageLoading (snd kv) = Some False) res) \<and>
         calls st' = calls st \<and> pending st' = AList.delete i (pending st)"
    if "permissionErrorRef st" "map_of (pending st) i = Some (GenerateAwaitsText c ar sz)"
  proof -
    let ?d = "st\<lparr>pending := AList.delete i (pending st)\<rparr>"
    have "step aistudio (Settles i (GotContent content)) st = Some (generateResolved aistudio c ar sz content ?d)"
      using that by (simp add: step_def)
    moreover have "permissionErrorRef ?d" using that by simp
    ultimately show ?thesis
      using allCleared_marked [of content] by (simp add: generateResolved_flagged)
  qed
  from 1 2 3 4 show ?thesis by blast
qed

theorem all_loading_after_text_witness:
  "\<not> permissionErrorRef textPending \<and>
   map_of (pending textPending) 0 = Some (GenerateAwaitsText 1 ''AUTO'' ''1K'') \<and>
   step False (Settles 0 (GotContent demoContent)) textPending = Some inFlightState \<and>
   map_option allLoading (results inFlightState) = Some True \<and>
   map snd (pending inFlightState) = map (TaskAwaitsImage 1) platforms"
proof -
  have h1: "\<not> permissionErrorRef textPending" by code_simp
  have h2: "map_of (pending textPending) 0 = Some (GenerateAwaitsText 1 ''AUTO'' ''1K'')"
    by code_simp
  have st: "step False (Settles 0 (GotContent demoContent)) textPending = Some inFlightState"
    by code_simp
  have del: "map snd (AList.delete 0 (pending textPending)) = []" by code_simp
  from all_loading_after_text [where st = textPending and content = demoContent and i = 0
      and c = 1 and ar = "''AUTO''" and sz = "''1K''" and aistudio = False] h1 h2
  have "\<exists>st'. step False (Settles 0 (GotContent demoContent)) textPending = Some st' \<and>
         (\<exists>res. results st' = Some res \<and> allLoading res) \<and>
         calls st' =
           calls textPending @
           map (\<lambda>kv. ImageCall (imagePrompt (snd kv)) (platform (snd kv)) ''AUTO'' ''1K'') (newResults demoContent) \<and>
         map snd (pending st') =
           map snd (AList.delete 0 (pending textPending)) @ map (TaskAwaitsImage 1) platforms"
    by blast
  with st del have "(\<exists>res. results inFlightState = Some res \<and> allLoading res) \<and>
      map snd (pending inFlightState) = map (TaskAwaitsImage 1) platforms"
    by auto
  with h1 h2 st show ?thesis by auto
qed


text \<open>
  C6 as stated fails when the permission flag is set while the text call is in flight
  (here by a rejected image call of the cycle before): after the text generation has
  resolved, every entry has its loading flag cleared, and no image call of the new
  cycle was made.
\<close>

theorem all_loading_counterexample:
  "map_option permissionErrorRef (run False flaggedTrace (mounted True)) = Some True \<and>
   map_option results (run False flaggedTrace (mounted True)) =
     Some (Some
       [(''LINKEDIN'', (demoPost (Platform ''LINKEDIN''))\<lparr>imageLoading := Some False\<rparr>),
        (''TWITTER'', (demoPost (Platform ''TWITTER''))\<lparr>imageLoading := Some False\<rparr>),
        (''INSTAGRAM'', (demoPost (Platform ''INSTAGRAM''))\<lparr>hashtags := Some [js ''#coffee''], imageLoading := Some False\<rparr>),
        (''undefined'', (demoPost (Platform ''FACEBOOK''))\<lparr>imageLoading := Some False\<rparr>)]) \<and>
   map_option (map_option allLoading \<circ> results) (run False flaggedTrace (mounted True)) =
     Some (Some False) \<and>
   map_option calls (run False flaggedTrace (mounted True)) =
     Some [TextCall (js ''coffee'') PROFESSIONAL,
           ImageCall (Some (js ''prompt'')) (Platform ''LINKEDIN'') ''AUTO'' ''1K'',
           ImageCall (Some (js ''prompt'')) (Platform ''TWITTER'') ''AUTO'' ''1K'',
           ImageCall (Some (js ''prompt'')) (Platform ''INSTAGRAM'') ''AUTO'' ''1K'',
           ImageCall (Some (js ''prompt'')) (Platform ''FACEBOOK'') ''AUTO'' ''1K'',
           TextCall (js ''coffee'') PROFESSIONAL] \<and>
   map_option pending (run False flaggedTrace (mounted True)) =
     Some [(2, TaskAwaitsImage 1 (Platform ''TWITTER'')),
           (3, TaskAwaitsImage 1 (Platform ''INSTAGRAM'')), (4, TaskAwaitsImage 1 (Platform ''FACEBOOK'')),
           (6, AwaitsApiError (InBatch 1 (Platform ''LINKEDIN'')) Returned)]"
  by code_simp


section \<open>The platform enumeration\<close>

text \<open>
  \<^bold>\<open>C10.\<close> The \<open>Platform\<close> enumeration has exactly the members \<open>LINKEDIN\<close>, \<open>TWITTER\<close> and
  \<open>INSTAGRAM\<close>, and \<open>GenerationResult\<close> declares exactly their three keys. So
  \<open>Platform.FACEBOOK\<close> is \<open>undefined\<close>. The object that \<open>handleGenerate\<close> builds has four
  entries: under each of the three declared keys the text, image prompt and hashtags of
  the draft of that platform, and under the key \<open>"undefined"\<close> the text, image prompt and
  hashtags of the Facebook draft, with \<open>undefined\<close> as its platform; it has no key
  \<open>"FACEBOOK"\<close>. When the handler has finished, the results state holds the Facebook
  draft under \<open>"undefined"\<close> still, now with a loading flag, and nothing under
  \<open>"FACEBOOK"\<close>.
\<close>

theorem platform_enum_has_no_facebook:
  "map fst Platform_enum = [''LINKEDIN'', ''TWITTER'', ''INSTAGRAM''] \<and>
   Platform ''FACEBOOK'' = Undefined \<and>
   GenerationResult_keys = [''LINKEDIN'', ''TWITTER'', ''INSTAGRAM''] \<and>
   newResults content =
     [(''LINKEDIN'',
       \<lparr>post_text = Some (draft_text (linkedin content)),
        imagePrompt = Some (draft_imagePrompt (linkedin content)),
        hashtags = draft_hashtags (linkedin content), platform = Member ''LINKEDIN'',
        imageUrl = None, imageLoading = None\<rparr>),
      (''TWITTER'',
       \<lparr>post_text = Some (draft_text (twitter content)),
        imagePrompt = Some (draft_imagePrompt (twitter content)),
        hashtags = draft_hashtags (twitter content), platform = Member ''TWITTER'',
        imageUrl = None, imageLoading = None\<rparr>),
      (''INSTAGRAM'',
       \<lparr>post_text = Some (draft_text (instagram content)),
        imagePrompt = Some (draft_imagePrompt (instagram content)),
        hashtags = draft_hashtags (instagram content), platform = Member ''INSTAGRAM'',
        imageUrl = None, imageLoading = None\<rparr>),
      (''undefined'',
       \<lparr>post_text = Some (draft_text (facebook content)),
        imagePrompt = Some (draft_imagePrompt (facebook content)),
        hashtags = draft_hashtags (facebook content), platform = Undefined,
        imageUrl = None, imageLoading = None\<rparr>)] \<and>
   map_of (newResults content) ''FACEBOOK'' = None \<and>
   entry (generateResolved aistudio c ar sz content st) ''undefined'' =
     Some \<lparr>post_text = Some (draft_text (facebook content)),
           imagePrompt = Some (draft_imagePrompt (facebook content)),
           hashtags = draft_hashtags (facebook content), platform = Undefined,
           imageUrl = None, imageLoading = Some (\<not> permissionErrorRef st)\<rparr> \<and>
   entry (generateResolved aistudio c ar sz content st) ''FACEBOOK'' = None"
proof -
  have enum: "map fst Platform_enum = [''LINKEDIN'', ''TWITTER'', ''INSTAGRAM''] \<and>
      Platform ''FACEBOOK'' = Undefined \<and>
      GenerationResult_keys = [''LINKEDIN'', ''TWITTER'', ''INSTAGRAM'']"
    by (simp add: Platform_enum_def platform_simps GenerationResult_keys_def)
  have new: "newResults content =
     [(''LINKEDIN'',
       \<lparr>post_text = Some (draft_text (linkedin content)),
        imagePrompt = Some (draft_imagePrompt (linkedin content)),
        hashtags = draft_hashtags (linkedin content), platform = Member ''LINKEDIN'',
        imageUrl = None, imageLoading = None\<rparr>),
      (''TWITTER'',
       \<lparr>post_text = Some (draft_text (twitter content)),
        imagePrompt = Some (draft_imagePrompt (twitter content)),
        hashtags = draft_hashtags (twitter content), platform = Member ''TWITTER'',
        imageUrl = None, imageLoading = None\<rparr>),
      (''INSTAGRAM'',
       \<lparr>post_text = Some (draft_text (instagram content)),
        imagePrompt = Some (draft_imagePrompt (instagram content)),
        hashtags = draft_hashtags (instagram content), platform = Member ''INSTAGRAM'',
        imageUrl = None, imageLoading = None\<rparr>),
      (''undefined'',
       \<lparr>post_text = Some (draft_text (facebook content)),
        imagePrompt = Some (draft_imagePrompt (facebook content)),
        hashtags = draft_hashtags (facebook content), platform = Undefined,
        imageUrl = None, imageLoading = None\<rparr>)]"
    by (simp add: newResults_def platform_simps spreadDraft_def)
  have absent: "map_of (newResults content) ''FACEBOOK'' = None"
    by (simp add: new)
  have after: "entry (generateResolved aistudio c ar sz content st) ''undefined'' =
     Some \<lparr>post_text = Some (draft_text (facebook content)),
           imagePrompt = Some (draft_imagePrompt (facebook content)),
           hashtags = draft_hashtags (facebook content), platform = Undefined,
           imageUrl = None, imageLoading = Some (\<not> permissionErrorRef st)\<rparr> \<and>
   entry (generateResolved aistudio c ar sz content st) ''FACEBOOK'' = None"
  proof (cases "permissionErrorRef st")
    case True
    then show ?thesis by (simp add: generateResolved_flagged entry_def new)
  next
    case False
    then show ?thesis by (simp add: generateResolved_unflagged entry_def new)
  qed
  from enum new absent after show ?thesis by blast
qed

text \<open>
  On four drafts that differ: the entry under \<open>"undefined"\<close> holds the text and the image
  prompt of the Facebook draft, and of no other draft.
\<close>

theorem platform_enum_has_no_facebook_witness:
  "map_of (newResults distinctContent) ''undefined'' =
     Some \<lparr>post_text = Some (js ''on Facebook''), imagePrompt = Some (js ''a family''),
           hashtags = None, platform = Undefined, imageUrl = None, imageLoading = None\<rparr> \<and>
   map_of (newResults distinctContent) ''INSTAGRAM'' =
     Some \<lparr>post_text = Some (js ''on Instagram''), imagePrompt = Some (js ''a cup''),
           hashtags = Some [js ''#coffee''], platform = Member ''INSTAGRAM'', imageUrl = None,
           imageLoading = None\<rparr> \<and>
   map_of (newResults distinctContent) ''FACEBOOK'' = None \<and>
   entry (generateResolved False 1 ''AUTO'' ''1K'' distinctContent (mounted True)) ''undefined'' =
     Some \<lparr>post_text = Some (js ''on Facebook''), imagePrompt = Some (js ''a family''),
           hashtags = None, platform = Undefined, imageUrl = None, imageLoading = Some True\<rparr>"
  using platform_enum_has_no_facebook [where content = distinctContent and aistudio = False
      and c = 1 and ar = "''AUTO''" and sz = "''1K''" and st = "mounted True"]
  by (simp add: distinctContent_def mounted_def)


section \<open>The partial-failure scenario\<close>



lemma taskStatus_setResults [simp]: "taskStatus (setResults f st) = taskStatus st"
  by (rule ext)+ (simp add: taskStatus_def)

lemma taskStatus_await [simp]: "taskStatus (await k st) = taskStatus st"
  by (rule ext)+ (simp add: taskStatus_def await_def)

lemma permissionErrorRef_await [simp]: "permissionErrorRef (await k st) = permissionErrorRef st"
  by (simp add: await_def)

















end
